theory Spec2Isabelle
  imports Complex_Main
begin

section \<open>Stroke prediction service: risk scoring, record store, aggregation\<close>

text \<open>
  A shallow embedding of \<^verbatim>\<open>enhanced_app.py\<close>. Python floats are modelled as
  \<^typ>\<open>real\<close>: every threshold test of the program compares a value with a decimal
  constant, and the model compares with that constant exactly. NaN and the infinities
  have no counterpart here.
\<close>

subsection \<open>Python values and conversions\<close>

text \<open>
  The request body is a JSON object; its fields are dynamically typed. \<open>PyOther\<close>
  stands for a JSON array or object.
\<close>

datatype pyval = PyNone | PyBool bool | PyInt int | PyFloat real | PyStr string | PyOther

datatype error = TypeError | ValueError | ModelError | StoreError

type_synonym pydict = "string \<rightharpoonup> pyval"

text \<open>\<^verbatim>\<open>data.get(key, default)\<close>\<close>

definition dict_get :: "pydict \<Rightarrow> string \<Rightarrow> pyval \<Rightarrow> pyval" where
  "dict_get d k dflt = (case d k of None \<Rightarrow> dflt | Some v \<Rightarrow> v)"

text \<open>
  \<^verbatim>\<open>float(x)\<close> and \<^verbatim>\<open>int(x)\<close>. How Python reads a number out of a string is
  not part of the program; it is the parameter \<open>sf\<close> (resp. \<open>si\<close>), which answers
  \<open>None\<close> where Python raises ValueError.
\<close>

fun py_float :: "(string \<Rightarrow> real option) \<Rightarrow> pyval \<Rightarrow> error + real" where
  "py_float sf (PyFloat r) = Inr r"
| "py_float sf (PyInt i) = Inr (of_int i)"
| "py_float sf (PyBool b) = Inr (if b then 1 else 0)"
| "py_float sf (PyStr s) = (case sf s of None \<Rightarrow> Inl ValueError | Some r \<Rightarrow> Inr r)"
| "py_float sf PyNone = Inl TypeError"
| "py_float sf PyOther = Inl TypeError"

fun py_int :: "(string \<Rightarrow> int option) \<Rightarrow> pyval \<Rightarrow> error + int" where
  "py_int si (PyInt i) = Inr i"
| "py_int si (PyBool b) = Inr (if b then 1 else 0)"
| "py_int si (PyFloat r) = Inr (if 0 \<le> r then \<lfloor>r\<rfloor> else \<lceil>r\<rceil>)"
| "py_int si (PyStr s) = (case si s of None \<Rightarrow> Inl ValueError | Some i \<Rightarrow> Inr i)"
| "py_int si PyNone = Inl TypeError"
| "py_int si PyOther = Inl TypeError"

text \<open>\<^verbatim>\<open>x > c\<close> for a numeric constant \<open>c\<close>: Python 3 raises TypeError on a string.\<close>

fun py_gt :: "pyval \<Rightarrow> real \<Rightarrow> error + bool" where
  "py_gt (PyFloat r) c = Inr (r > c)"
| "py_gt (PyInt i) c = Inr (of_int i > c)"
| "py_gt (PyBool b) c = Inr ((if b then 1 else 0) > c)"
| "py_gt (PyStr s) c = Inl TypeError"
| "py_gt PyNone c = Inl TypeError"
| "py_gt PyOther c = Inl TypeError"

subsection \<open>Risk tier of a probability (\<^verbatim>\<open>predict\<close>, the if/elif chain on \<^verbatim>\<open>stroke_prob\<close>)\<close>

definition risk_level_of :: "real \<Rightarrow> string" where
  "risk_level_of stroke_prob =
     (if stroke_prob < 0.2 then ''Very Low''
      else if stroke_prob < 0.4 then ''Low''
      else if stroke_prob < 0.6 then ''Medium''
      else if stroke_prob < 0.8 then ''High''
      else ''Very High'')"

subsection \<open>Risk Factor Analyzer (\<^verbatim>\<open>calculate_risk_factors\<close>)\<close>

text \<open>
  One entry of the \<^verbatim>\<open>factors\<close> list. The dictionary key \<^verbatim>\<open>'value'\<close> is the
  field \<open>fvalue\<close>; it holds a float, an int or the raw smoking status.
\<close>

record risk_factor =
  name :: string
  fvalue :: pyval
  contribution :: real
  unit :: string
  risk_category :: string

text \<open>\<^verbatim>\<open># Age risk (increases after 50)\<close>\<close>

definition age_factor :: "real \<Rightarrow> risk_factor" where
  "age_factor age =
     \<lparr>name = ''Age'', fvalue = PyFloat age,
      contribution = (if age > 50 then max 0 ((age - 50) * 0.02) else 0),
      unit = ''years'',
      risk_category = (if age > 65 then ''High'' else if age > 50 then ''Medium'' else ''Low'')\<rparr>"

text \<open>\<^verbatim>\<open># BMI risk\<close>. The unit string is given by its bytes in the source file.\<close>

definition bmi_factor :: "real \<Rightarrow> risk_factor" where
  "bmi_factor bmi =
     \<lparr>name = ''BMI'', fvalue = PyFloat bmi,
      contribution = (if bmi > 30 then 0.15 else if bmi > 25 then 0.08 else 0),
      unit = ''kg/m'' @ [CHR 0xC3, CHR 0x82, CHR 0xC2, CHR 0xB2],
      risk_category = (if bmi > 30 then ''High'' else if bmi > 25 then ''Medium'' else ''Normal'')\<rparr>"

text \<open>\<^verbatim>\<open># Glucose level risk\<close>\<close>

definition glucose_factor :: "real \<Rightarrow> risk_factor" where
  "glucose_factor glucose =
     \<lparr>name = ''Glucose Level'', fvalue = PyFloat glucose,
      contribution = (if glucose > 140 then 0.20 else if glucose > 100 then 0.10 else 0),
      unit = ''mg/dL'',
      risk_category =
        (if glucose > 140 then ''High'' else if glucose > 100 then ''Medium'' else ''Normal'')\<rparr>"

text \<open>\<^verbatim>\<open># Hypertension risk\<close>\<close>

definition hypertension_factor :: "int \<Rightarrow> risk_factor" where
  "hypertension_factor hypertension =
     \<lparr>name = ''Hypertension'', fvalue = PyInt hypertension,
      contribution = (if hypertension = 1 then 0.25 else 0),
      unit = ''Yes/No'',
      risk_category = (if hypertension = 1 then ''High'' else ''Low'')\<rparr>"

text \<open>\<^verbatim>\<open># Heart disease risk\<close>\<close>

definition heart_disease_factor :: "int \<Rightarrow> risk_factor" where
  "heart_disease_factor heart_disease =
     \<lparr>name = ''Heart Disease'', fvalue = PyInt heart_disease,
      contribution = (if heart_disease = 1 then 0.30 else 0),
      unit = ''Yes/No'',
      risk_category = (if heart_disease = 1 then ''High'' else ''Low'')\<rparr>"

text \<open>\<^verbatim>\<open># Smoking risk\<close>\<close>

definition smoking_factor :: "pyval \<Rightarrow> risk_factor" where
  "smoking_factor smoking =
     \<lparr>name = ''Smoking Status'', fvalue = smoking,
      contribution =
        (if smoking = PyStr ''smokes'' then 0.15
         else if smoking = PyStr ''formerly smoked'' then 0.10 else 0),
      unit = ''Category'',
      risk_category =
        (if smoking = PyStr ''smokes'' then ''High''
         else if smoking = PyStr ''formerly smoked'' then ''Medium'' else ''Low'')\<rparr>"

text \<open>
  The whole function: the five conversions happen in this order, each before its factor
  is appended, and the first one that raises ends the call.
\<close>

definition calculate_risk_factors ::
  "(string \<Rightarrow> real option) \<Rightarrow> (string \<Rightarrow> int option) \<Rightarrow> pydict \<Rightarrow> error + risk_factor list" where
  "calculate_risk_factors sf si data =
     (case py_float sf (dict_get data ''age'' (PyInt 0)) of
        Inl e \<Rightarrow> Inl e
      | Inr age \<Rightarrow>
     (case py_float sf (dict_get data ''bmi'' (PyInt 0)) of
        Inl e \<Rightarrow> Inl e
      | Inr bmi \<Rightarrow>
     (case py_float sf (dict_get data ''avg_glucose_level'' (PyInt 0)) of
        Inl e \<Rightarrow> Inl e
      | Inr glucose \<Rightarrow>
     (case py_int si (dict_get data ''hypertension'' (PyInt 0)) of
        Inl e \<Rightarrow> Inl e
      | Inr hypertension \<Rightarrow>
     (case py_int si (dict_get data ''heart_disease'' (PyInt 0)) of
        Inl e \<Rightarrow> Inl e
      | Inr heart_disease \<Rightarrow>
          Inr [age_factor age, bmi_factor bmi, glucose_factor glucose,
               hypertension_factor hypertension, heart_disease_factor heart_disease,
               smoking_factor (dict_get data ''smoking_status'' (PyStr ''never smoked''))])))))"

subsection \<open>Interpretation and recommendations\<close>

definition get_interpretation :: "real \<Rightarrow> risk_factor list \<Rightarrow> string" where
  "get_interpretation stroke_prob risk_factors =
     (if stroke_prob < 0.2 then ''Low stroke risk. Maintain healthy lifestyle.''
      else if stroke_prob < 0.4 then ''Moderate risk. Monitor risk factors regularly.''
      else if stroke_prob < 0.6 then
        ''Elevated risk. Consider lifestyle changes and regular checkups.''
      else if stroke_prob < 0.8 then
        ''High risk. Consult healthcare provider for preventive measures.''
      else ''Very high risk. Immediate medical consultation recommended.'')"

text \<open>
  The body of the loop over the factors: what one factor appends. \<^verbatim>\<open>and\<close> evaluates
  the comparison only when the name matches, and a comparison that raises ends the call.
\<close>

definition factor_recommendation :: "risk_factor \<Rightarrow> error + string list" where
  "factor_recommendation factor =
     (if contribution factor > 0.1 then
        (case (if name factor = ''BMI'' then py_gt (fvalue factor) 25 else Inr False) of
           Inl e \<Rightarrow> Inl e
         | Inr True \<Rightarrow> Inr [''Weight management program'']
         | Inr False \<Rightarrow>
        (case (if name factor = ''Glucose Level'' then py_gt (fvalue factor) 100 else Inr False) of
           Inl e \<Rightarrow> Inl e
         | Inr True \<Rightarrow> Inr [''Diabetes screening and management'']
         | Inr False \<Rightarrow>
             (if name factor = ''Smoking Status'' \<and>
                 fvalue factor \<in> set [PyStr ''smokes'', PyStr ''formerly smoked'']
              then Inr [''Smoking cessation support''] else Inr [])))
      else Inr [])"

fun check_factors :: "risk_factor list \<Rightarrow> string list \<Rightarrow> error + string list" where
  "check_factors [] recommendations = Inr recommendations"
| "check_factors (factor # rest) recommendations =
     (case factor_recommendation factor of
        Inl e \<Rightarrow> Inl e
      | Inr r \<Rightarrow> check_factors rest (recommendations @ r))"

definition get_recommendations :: "real \<Rightarrow> risk_factor list \<Rightarrow> error + string list" where
  "get_recommendations stroke_prob risk_factors =
     (case check_factors risk_factors
             (if stroke_prob > 0.4
              then [''Regular blood pressure monitoring'', ''Annual health checkups''] else []) of
        Inl e \<Rightarrow> Inl e
      | Inr recommendations \<Rightarrow>
          Inr (take 5
            (if recommendations = []
             then [''Maintain current healthy lifestyle'', ''Regular exercise and balanced diet'']
             else recommendations)))"

subsection \<open>Prediction Record Store, write side (\<^verbatim>\<open>save_prediction_to_db\<close>)\<close>

text \<open>
  The result dictionary that \<^verbatim>\<open>predict\<close> builds. The key \<^verbatim>\<open>'risk_factors'\<close> may
  be missing as far as \<^verbatim>\<open>save_prediction_to_db\<close> is concerned, hence the option.
\<close>

record prediction_result =
  prediction :: int
  probability_no_stroke :: real
  probability_stroke :: real
  risk_level :: string
  confidence :: real
  risk_factors :: "risk_factor list option"
  interpretation_text :: string
  recommendations :: "string list"

text \<open>The tuple bound to the eighteen placeholders of the INSERT into predictions.\<close>

record inserted_prediction =
  ins_patient_id :: pyval
  ins_timestamp :: string
  ins_gender :: pyval
  ins_age :: pyval
  ins_hypertension :: pyval
  ins_heart_disease :: pyval
  ins_ever_married :: pyval
  ins_work_type :: pyval
  ins_residence_type :: pyval
  ins_avg_glucose_level :: pyval
  ins_bmi :: pyval
  ins_smoking_status :: pyval
  ins_prediction :: int
  ins_stroke_probability :: real
  ins_no_stroke_probability :: real
  ins_risk_level :: string
  ins_confidence :: real
  ins_notes :: pyval

text \<open>The tuple bound to the INSERT into risk_factors.\<close>

record inserted_factor =
  rf_prediction_id :: nat
  rf_factor_name :: string
  rf_factor_value :: pyval
  rf_contribution :: real

text \<open>
  The database file: both tables and the AUTOINCREMENT counter of predictions (the
  largest id handed out so far; the next parent row gets its successor, which is what
  \<^verbatim>\<open>cursor.lastrowid\<close> then reads).
\<close>

record db =
  predictions :: "(nat \<times> inserted_prediction) list"
  risk_factor_rows :: "inserted_factor list"
  seq :: nat

text \<open>
  The calls into sqlite3 that may raise. Which of them do is the parameter \<open>fails\<close> of
  the functions below. Besides, sqlite3 refuses to bind a list or a dict.
\<close>

datatype db_op = OpConnect | OpInsertPrediction | OpInsertFactor nat | OpCommit | OpClose

definition bindable :: "pyval \<Rightarrow> bool" where
  "bindable v = (v \<noteq> PyOther)"

definition prediction_bindable :: "inserted_prediction \<Rightarrow> bool" where
  "prediction_bindable row =
     list_all bindable
       [ins_patient_id row, ins_gender row, ins_age row, ins_hypertension row,
        ins_heart_disease row, ins_ever_married row, ins_work_type row,
        ins_residence_type row, ins_avg_glucose_level row, ins_bmi row,
        ins_smoking_status row, ins_notes row]"

definition factor_insert_fails :: "(db_op \<Rightarrow> bool) \<Rightarrow> nat \<Rightarrow> risk_factor \<Rightarrow> bool" where
  "factor_insert_fails fails k factor = (fails (OpInsertFactor k) \<or> \<not> bindable (fvalue factor))"

text \<open>
  The loop over \<^verbatim>\<open>result['risk_factors']\<close>, on the connection's uncommitted view
  \<open>w\<close> of the database; \<open>k\<close> counts the factors already inserted.
\<close>

fun insert_factors ::
  "(db_op \<Rightarrow> bool) \<Rightarrow> nat \<Rightarrow> nat \<Rightarrow> risk_factor list \<Rightarrow> db \<Rightarrow> error + db" where
  "insert_factors fails k pid [] w = Inr w"
| "insert_factors fails k pid (factor # rest) w =
     (if factor_insert_fails fails k factor then Inl StoreError
      else insert_factors fails (Suc k) pid rest
             (w\<lparr>risk_factor_rows := risk_factor_rows w @
                  [\<lparr>rf_prediction_id = pid, rf_factor_name = name factor,
                    rf_factor_value = fvalue factor,
                    rf_contribution = contribution factor\<rparr>]\<rparr>))"

text \<open>
  \<^verbatim>\<open>save_prediction_to_db(data, result)\<close>. The connection is opened with the default
  transaction handling of sqlite3: the first INSERT opens a transaction, every INSERT
  works on the connection's own view, and only \<^verbatim>\<open>conn.commit()\<close> writes that view to
  the file. The \<^verbatim>\<open>except\<close> branch neither commits nor rolls back; the connection is
  dropped with the transaction open, so the file keeps its state from before the call.
  The two readings of the clock are the parameters \<open>now_id\<close> (formatted
  \<^verbatim>\<open>%Y%m%d%H%M%S\<close>) and \<open>now_iso\<close>. The function returns the pair of the source
  and the database file after the call.
\<close>

definition save_prediction_to_db ::
  "(db_op \<Rightarrow> bool) \<Rightarrow> string \<Rightarrow> string \<Rightarrow> pydict \<Rightarrow> prediction_result \<Rightarrow> db
     \<Rightarrow> (nat option \<times> pyval option) \<times> db" where
  "save_prediction_to_db fails now_id now_iso data result file =
     (if fails OpConnect then ((None, None), file)
      else
        let pat = dict_get data ''patient_id'' (PyStr (''PATIENT_'' @ now_id));
            row = \<lparr>ins_patient_id = pat,
                   ins_timestamp = now_iso,
                   ins_gender = dict_get data ''gender'' PyNone,
                   ins_age = dict_get data ''age'' PyNone,
                   ins_hypertension = dict_get data ''hypertension'' PyNone,
                   ins_heart_disease = dict_get data ''heart_disease'' PyNone,
                   ins_ever_married = dict_get data ''ever_married'' PyNone,
                   ins_work_type = dict_get data ''work_type'' PyNone,
                   ins_residence_type = dict_get data ''Residence_type'' PyNone,
                   ins_avg_glucose_level = dict_get data ''avg_glucose_level'' PyNone,
                   ins_bmi = dict_get data ''bmi'' PyNone,
                   ins_smoking_status = dict_get data ''smoking_status'' PyNone,
                   ins_prediction = prediction result,
                   ins_stroke_probability = probability_stroke result,
                   ins_no_stroke_probability = probability_no_stroke result,
                   ins_risk_level = risk_level result,
                   ins_confidence = confidence result,
                   ins_notes = dict_get data ''notes'' (PyStr [])\<rparr>
        in
          if fails OpInsertPrediction \<or> \<not> prediction_bindable row then ((None, None), file)
          else
            let pid = Suc (seq file);
                w = file\<lparr>predictions := predictions file @ [(pid, row)], seq := pid\<rparr>
            in
              (case (case risk_factors result of
                       None \<Rightarrow> Inr w
                     | Some factors \<Rightarrow> insert_factors fails 0 pid factors w) of
                 Inl e \<Rightarrow> ((None, None), file)
               | Inr w' \<Rightarrow>
                   if fails OpCommit then ((None, None), file)
                   else if fails OpClose then ((None, None), w')
                   else ((Some pid, Some pat), w')))"

subsection \<open>The prediction request (\<^verbatim>\<open>predict\<close>)\<close>

text \<open>
  What \<^verbatim>\<open>jsonify(result)\<close> carries on the success path: the result dictionary and the
  three keys added after a successful save. A key that was never set is \<open>None\<close>.
\<close>

record response = prediction_result +
  prediction_id :: "nat option"
  patient_id :: "pyval option"
  saved_to_database :: "bool option"

text \<open>
  The trained pipeline is not part of the program text: \<open>clf\<close> stands for
  \<^verbatim>\<open>model.predict\<close> and \<^verbatim>\<open>model.predict_proba\<close> on the one-row frame, giving the
  label and the pair \<^verbatim>\<open>prob[0]\<close>, \<^verbatim>\<open>prob[1]\<close>, or the exception they raise. Every
  exception inside the handler ends in the \<^verbatim>\<open>except\<close> branch, the 500 response
  \<open>Inl e\<close>. \<^verbatim>\<open>if prediction_id:\<close> is false for \<open>None\<close> and for \<open>0\<close>.
\<close>

definition predict ::
  "(pydict \<Rightarrow> error + int \<times> real \<times> real) \<Rightarrow> (string \<Rightarrow> real option) \<Rightarrow> (string \<Rightarrow> int option)
     \<Rightarrow> (db_op \<Rightarrow> bool) \<Rightarrow> string \<Rightarrow> string \<Rightarrow> pydict \<Rightarrow> db \<Rightarrow> (error + response) \<times> db" where
  "predict clf sf si fails now_id now_iso data file =
     (case clf data of
        Inl e \<Rightarrow> (Inl e, file)
      | Inr (pred, prob0, prob1) \<Rightarrow>
          let stroke_prob = prob1;
              risk = risk_level_of stroke_prob
          in
            (case calculate_risk_factors sf si data of
               Inl e \<Rightarrow> (Inl e, file)
             | Inr factors \<Rightarrow>
                 (case get_recommendations stroke_prob factors of
                    Inl e \<Rightarrow> (Inl e, file)
                  | Inr recs \<Rightarrow>
                      let result =
                            \<lparr>prediction = pred,
                             probability_no_stroke = prob0,
                             probability_stroke = prob1,
                             risk_level = risk,
                             confidence = max prob0 prob1 * 100,
                             risk_factors = Some factors,
                             interpretation_text = get_interpretation stroke_prob factors,
                             recommendations = recs\<rparr>;
                          saved = save_prediction_to_db fails now_id now_iso data result file;
                          pid = fst (fst saved);
                          pat = snd (fst saved)
                      in
                        (if pid \<noteq> None \<and> pid \<noteq> Some 0
                         then (Inr (prediction_result.extend result
                                      (response.fields pid pat (Some True))), snd saved)
                         else (Inr (prediction_result.extend result
                                      (response.fields None None None)), snd saved)))))"

subsection \<open>Aggregation Engine (\<^verbatim>\<open>get_dashboard_data\<close>)\<close>

text \<open>
  A row of the table predictions as the queries read it, typed by the CREATE TABLE
  statement of \<^verbatim>\<open>init_database\<close>; every column may be NULL (\<open>None\<close>).
\<close>

record stored_prediction =
  col_id :: nat
  col_patient_id :: "string option"
  col_timestamp :: "string option"
  col_gender :: "string option"
  col_age :: "real option"
  col_hypertension :: "int option"
  col_heart_disease :: "int option"
  col_ever_married :: "string option"
  col_work_type :: "string option"
  col_residence_type :: "string option"
  col_avg_glucose_level :: "real option"
  col_bmi :: "real option"
  col_smoking_status :: "string option"
  col_prediction :: "int option"
  col_stroke_probability :: "real option"
  col_no_stroke_probability :: "real option"
  col_risk_level :: "string option"
  col_confidence :: "real option"
  col_notes :: "string option"

text \<open>
  SQL's three-valued logic: a comparison with NULL is NULL (\<open>None\<close>); WHERE and
  CASE WHEN take a row or a branch only when the condition is true.
\<close>

definition sql_lt :: "real option \<Rightarrow> real \<Rightarrow> bool option" where
  "sql_lt v c = (case v of None \<Rightarrow> None | Some x \<Rightarrow> Some (x < c))"

definition sql_gt :: "real option \<Rightarrow> real \<Rightarrow> bool option" where
  "sql_gt v c = (case v of None \<Rightarrow> None | Some x \<Rightarrow> Some (x > c))"

definition sql_eq :: "string option \<Rightarrow> string \<Rightarrow> bool option" where
  "sql_eq v c = (case v of None \<Rightarrow> None | Some x \<Rightarrow> Some (x = c))"

definition sql_in :: "string option \<Rightarrow> string list \<Rightarrow> bool option" where
  "sql_in v cs = (case v of None \<Rightarrow> None | Some x \<Rightarrow> Some (x \<in> set cs))"

definition sql_and :: "bool option \<Rightarrow> bool option \<Rightarrow> bool option" where
  "sql_and a b =
     (if a = Some False \<or> b = Some False then Some False
      else if a = Some True \<and> b = Some True then Some True
      else None)"

definition sql_true :: "bool option \<Rightarrow> bool" where
  "sql_true c = (c = Some True)"

text \<open>\<^verbatim>\<open>SELECT key, COUNT(*) ... GROUP BY key\<close>: one pair for each key that occurs.\<close>

definition group_count :: "('r \<Rightarrow> 'k) \<Rightarrow> 'r list \<Rightarrow> ('k \<times> nat) list" where
  "group_count key rows =
     map (\<lambda>k. (k, length (filter (\<lambda>r. key r = k) rows))) (remdups (map key rows))"

text \<open>\<^verbatim>\<open>SUM(...)\<close> is NULL over no rows.\<close>

definition sql_sum :: "int list \<Rightarrow> int option" where
  "sql_sum xs = (if xs = [] then None else Some (sum_list xs))"

text \<open>
  \<^verbatim>\<open>round(x, n)\<close>: to \<open>n\<close> decimals, a tie going to the even neighbour.
\<close>

definition py_round :: "real \<Rightarrow> nat \<Rightarrow> real" where
  "py_round x n =
     (let y = x * 10 ^ n; f = \<lfloor>y\<rfloor>; d = y - of_int f
      in of_int (if d < 1 / 2 then f else if d > 1 / 2 then f + 1
                 else if even f then f else f + 1) / 10 ^ n)"

text \<open>\<^verbatim>\<open># High risk patients\<close>\<close>

definition high_risk_query :: "stored_prediction list \<Rightarrow> nat" where
  "high_risk_query rows =
     length (filter (\<lambda>r. sql_true (sql_and (sql_in (col_risk_level r) [''High'', ''Very High''])
                                            (sql_gt (col_stroke_probability r) 0.5))) rows)"

text \<open>\<^verbatim>\<open># Age distribution\<close>: the CASE of the select list and the CASE of ORDER BY.\<close>

definition age_group :: "real option \<Rightarrow> string" where
  "age_group age =
     (if sql_true (sql_lt age 30) then ''Under 30''
      else if sql_true (sql_lt age 50) then ''30-49''
      else if sql_true (sql_lt age 65) then ''50-64''
      else ''65+'')"

definition age_group_order :: "string \<Rightarrow> nat" where
  "age_group_order g =
     (if g = ''Under 30'' then 1 else if g = ''30-49'' then 2 else if g = ''50-64'' then 3 else 4)"

definition age_distribution_query :: "stored_prediction list \<Rightarrow> (string \<times> nat) list" where
  "age_distribution_query rows =
     sort_key (\<lambda>g. age_group_order (fst g)) (group_count (\<lambda>r. age_group (col_age r)) rows)"

text \<open>\<^verbatim>\<open>CORRECTED GENDER RISK STATISTICS SECTION\<close>: the body of the loop.\<close>

record gender_stats =
  total :: int
  high_risk :: int
  risk_percentage :: real

definition gender_risk :: "stored_prediction list \<Rightarrow> string \<Rightarrow> gender_stats" where
  "gender_risk rows gender =
     (let selected = filter (\<lambda>r. sql_true (sql_eq (col_gender r) gender)) rows;
          count_all = int (length selected);
          sum_high = sql_sum (map (\<lambda>r. if sql_true (sql_in (col_risk_level r) [''High'', ''Very High''])
                                         then 1 else 0) selected);
          total_gender = (if count_all \<noteq> 0 then count_all else 0);
          high_risk_gender = (case sum_high of None \<Rightarrow> 0 | Some h \<Rightarrow> if h \<noteq> 0 then h else 0);
          percentage =
            (if total_gender \<noteq> 0 \<and> total_gender > 0
             then (if high_risk_gender \<noteq> 0
                   then (of_int high_risk_gender / of_int total_gender) * 100 else 0)
             else 0)
      in \<lparr>total = total_gender, high_risk = high_risk_gender,
          risk_percentage = py_round percentage 2\<rparr>)"

text \<open>
  The fields of the JSON answer that the properties below are about. The two
  dictionaries built with \<^verbatim>\<open>dict(cursor.fetchall())\<close> are maps, the dictionary filled
  by the loop over \<^verbatim>\<open>['Male', 'Female']\<close> is the list of its items in insertion order.
\<close>

record dashboard =
  total_predictions :: nat
  gender_distribution :: "string option \<rightharpoonup> nat"
  risk_distribution :: "string option \<rightharpoonup> nat"
  high_risk_patients :: nat
  age_distribution :: "(string \<times> nat) list"
  gender_risk_stats :: "(string \<times> gender_stats) list"

definition get_dashboard_data :: "stored_prediction list \<Rightarrow> dashboard" where
  "get_dashboard_data rows =
     \<lparr>total_predictions = length rows,
      gender_distribution = map_of (group_count col_gender rows),
      risk_distribution = map_of (group_count col_risk_level rows),
      high_risk_patients = high_risk_query rows,
      age_distribution = age_distribution_query rows,
      gender_risk_stats = map (\<lambda>gender. (gender, gender_risk rows gender)) [''Male'', ''Female'']\<rparr>"

subsection \<open>Notions used to state the properties\<close>

text \<open>The values on which a comparison with a number does not raise.\<close>

definition numeric :: "pyval \<Rightarrow> bool" where
  "numeric v = (case v of PyFloat r \<Rightarrow> True | PyInt i \<Rightarrow> True | PyBool b \<Rightarrow> True | _ \<Rightarrow> False)"

text \<open>
  A factor list whose BMI and Glucose Level entries carry numbers, as every list built by
  \<^verbatim>\<open>calculate_risk_factors\<close> does.
\<close>

definition measured_numerically :: "risk_factor list \<Rightarrow> bool" where
  "measured_numerically factors =
     list_all (\<lambda>f. name f \<in> {''BMI'', ''Glucose Level''} \<longrightarrow> numeric (fvalue f)) factors"

text \<open>The recommendations one factor adds (none where its rule raises).\<close>

definition fired :: "risk_factor \<Rightarrow> string list" where
  "fired factor = (case factor_recommendation factor of Inl e \<Rightarrow> [] | Inr r \<Rightarrow> r)"

text \<open>The child rows of one prediction.\<close>

definition factor_rows :: "nat \<Rightarrow> risk_factor list \<Rightarrow> inserted_factor list" where
  "factor_rows pid factors =
     map (\<lambda>f. \<lparr>rf_prediction_id = pid, rf_factor_name = name f, rf_factor_value = fvalue f,
               rf_contribution = contribution f\<rparr>) factors"

text \<open>Concrete inputs: the scenario record of the specification, a string parser that
  accepts nothing, a classifier answer, an empty database and two failure patterns.\<close>

definition scenario_record :: pydict where
  "scenario_record =
     [''age'' \<mapsto> PyInt 70, ''bmi'' \<mapsto> PyInt 32, ''avg_glucose_level'' \<mapsto> PyInt 150,
      ''hypertension'' \<mapsto> PyInt 1, ''heart_disease'' \<mapsto> PyInt 0,
      ''smoking_status'' \<mapsto> PyStr ''smokes'']"

definition no_float :: "string \<Rightarrow> real option" where
  "no_float s = None"

definition no_int :: "string \<Rightarrow> int option" where
  "no_int s = None"

definition scenario_factors :: "risk_factor list" where
  "scenario_factors =
     [age_factor 70, bmi_factor 32, glucose_factor 150, hypertension_factor 1,
      heart_disease_factor 0, smoking_factor (PyStr ''smokes'')]"

definition example_clf :: "pydict \<Rightarrow> error + int \<times> real \<times> real" where
  "example_clf data = Inr (1, 0.3, 0.7)"

definition empty_db :: db where
  "empty_db = \<lparr>predictions = [], risk_factor_rows = [], seq = 0\<rparr>"

definition third_factor_fails :: "db_op \<Rightarrow> bool" where
  "third_factor_fails op = (op = OpInsertFactor 2)"

definition store_down :: "db_op \<Rightarrow> bool" where
  "store_down op = (op = OpConnect)"

definition scenario_result :: prediction_result where
  "scenario_result =
     \<lparr>prediction = 1, probability_no_stroke = 0.3, probability_stroke = 0.7,
      risk_level = ''High'', confidence = 70, risk_factors = Some scenario_factors,
      interpretation_text = ''High risk. Consult healthcare provider for preventive measures.'',
      recommendations = []\<rparr>"

text \<open>
  Concrete stored rows: only the columns the dashboard queries read are filled. The example
  store holds three Male rows and one row of gender Other whose label is High although
  its probability is below 0.5.
\<close>

definition example_row :: "nat \<Rightarrow> string \<Rightarrow> real \<Rightarrow> string \<Rightarrow> real \<Rightarrow> stored_prediction" where
  "example_row i gender age risk prob =
     \<lparr>col_id = i, col_patient_id = None, col_timestamp = None, col_gender = Some gender,
      col_age = Some age, col_hypertension = None, col_heart_disease = None,
      col_ever_married = None, col_work_type = None, col_residence_type = None,
      col_avg_glucose_level = None, col_bmi = None, col_smoking_status = None,
      col_prediction = None, col_stroke_probability = Some prob,
      col_no_stroke_probability = Some (1 - prob), col_risk_level = Some risk,
      col_confidence = None, col_notes = None\<rparr>"

definition example_males :: "stored_prediction list" where
  "example_males =
     [example_row 1 ''Male'' 40 ''Low'' 0.3, example_row 2 ''Male'' 20 ''High'' 0.7,
      example_row 3 ''Male'' 30 ''Very Low'' 0.1]"

definition example_other :: stored_prediction where
  "example_other = example_row 4 ''Other'' 70 ''High'' 0.45"

definition example_store :: "stored_prediction list" where
  "example_store = example_males @ [example_other]"

section \<open>Properties\<close>

text \<open>
  C1. Every probability gets exactly one of the five tiers, and each tier is the stated
  half-open interval: Very Low below 0.2, Low on [0.2, 0.4), Medium on [0.4, 0.6), High on
  [0.6, 0.8), Very High from 0.8 on. The five labels are pairwise different, so the
  intervals partition the line (and with it [0, 1]) without gap or overlap.
\<close>

theorem risk_level_partition:
  "(risk_level_of p = ''Very Low'' \<longleftrightarrow> p < 0.2) \<and>
   (risk_level_of p = ''Low'' \<longleftrightarrow> 0.2 \<le> p \<and> p < 0.4) \<and>
   (risk_level_of p = ''Medium'' \<longleftrightarrow> 0.4 \<le> p \<and> p < 0.6) \<and>
   (risk_level_of p = ''High'' \<longleftrightarrow> 0.6 \<le> p \<and> p < 0.8) \<and>
   (risk_level_of p = ''Very High'' \<longleftrightarrow> 0.8 \<le> p) \<and>
   risk_level_of p \<in> {''Very Low'', ''Low'', ''Medium'', ''High'', ''Very High''} \<and>
   distinct [''Very Low'', ''Low'', ''Medium'', ''High'', ''Very High'']"
  by (simp add: risk_level_of_def)

subsection \<open>Risk Factor Analyzer\<close>

text \<open>
  C5. The Age factor is High exactly above 65, Medium exactly on (50, 65] and Low exactly
  up to 50; its contribution is max(0, (a - 50) * 0.02) above 50 and 0 up to 50, hence 0
  on the whole of (-inf, 50], and it never decreases as the age grows.
\<close>

theorem age_factor_category_contribution:
  "(risk_category (age_factor a) = ''High'' \<longleftrightarrow> a > 65) \<and>
   (risk_category (age_factor a) = ''Medium'' \<longleftrightarrow> 50 < a \<and> a \<le> 65) \<and>
   (risk_category (age_factor a) = ''Low'' \<longleftrightarrow> a \<le> 50) \<and>
   contribution (age_factor a) = (if a > 50 then max 0 ((a - 50) * 0.02) else 0) \<and>
   contribution (age_factor (min a 50)) = 0 \<and>
   mono (\<lambda>x. contribution (age_factor x))"
  by (auto simp: age_factor_def mono_def max_def)

text \<open>The Age factor is the first entry of the analyzer's answer, for the converted age.\<close>

lemma calculate_risk_factors_age:
  "calculate_risk_factors sf si d = Inr fs \<Longrightarrow>
   \<exists>a. py_float sf (dict_get d ''age'' (PyInt 0)) = Inr a \<and> hd fs = age_factor a"
  by (auto simp: calculate_risk_factors_def split: sum.splits)

text \<open>
  C4, as the code has it. The analyzer converts five fields before it builds anything
  (\<^verbatim>\<open>float\<close> for age, bmi, avg_glucose_level; \<^verbatim>\<open>int\<close> for hypertension,
  heart_disease; a missing key counts as 0). For every record on which these conversions
  succeed it returns exactly six factors, in the order Age, BMI, Glucose Level,
  Hypertension, Heart Disease, Smoking Status, with the step and piecewise contributions
  and categories of the specification.
\<close>

theorem calculate_risk_factors_six:
  assumes "py_float sf (dict_get d ''age'' (PyInt 0)) = Inr age"
    and "py_float sf (dict_get d ''bmi'' (PyInt 0)) = Inr bmi"
    and "py_float sf (dict_get d ''avg_glucose_level'' (PyInt 0)) = Inr glucose"
    and "py_int si (dict_get d ''hypertension'' (PyInt 0)) = Inr hypertension"
    and "py_int si (dict_get d ''heart_disease'' (PyInt 0)) = Inr heart_disease"
  shows "\<exists>fs. calculate_risk_factors sf si d = Inr fs \<and> length fs = 6 \<and>
     map name fs = [''Age'', ''BMI'', ''Glucose Level'', ''Hypertension'', ''Heart Disease'',
                    ''Smoking Status''] \<and>
     map contribution fs =
       [if age > 50 then max 0 ((age - 50) * 0.02) else 0,
        if bmi > 30 then 0.15 else if 25 < bmi \<and> bmi \<le> 30 then 0.08 else 0,
        if glucose > 140 then 0.20 else if 100 < glucose \<and> glucose \<le> 140 then 0.10 else 0,
        if hypertension = 1 then 0.25 else 0,
        if heart_disease = 1 then 0.30 else 0,
        if dict_get d ''smoking_status'' (PyStr ''never smoked'') = PyStr ''smokes'' then 0.15
        else if dict_get d ''smoking_status'' (PyStr ''never smoked'') = PyStr ''formerly smoked''
        then 0.10 else 0] \<and>
     map risk_category fs =
       [if age > 65 then ''High'' else if age > 50 then ''Medium'' else ''Low'',
        if bmi > 30 then ''High'' else if 25 < bmi \<and> bmi \<le> 30 then ''Medium'' else ''Normal'',
        if glucose > 140 then ''High'' else if 100 < glucose \<and> glucose \<le> 140 then ''Medium''
        else ''Normal'',
        if hypertension = 1 then ''High'' else ''Low'',
        if heart_disease = 1 then ''High'' else ''Low'',
        if dict_get d ''smoking_status'' (PyStr ''never smoked'') = PyStr ''smokes'' then ''High''
        else if dict_get d ''smoking_status'' (PyStr ''never smoked'') = PyStr ''formerly smoked''
        then ''Medium'' else ''Low'']"
  using assms
  by (simp add: calculate_risk_factors_def age_factor_def bmi_factor_def glucose_factor_def
      hypertension_factor_def heart_disease_factor_def smoking_factor_def)

text \<open>
  The scenario of the specification: age 70, bmi 32, glucose 150, hypertension 1, heart
  disease 0, smoking status smokes.
\<close>

theorem calculate_risk_factors_scenario:
  "map_sum id (map (\<lambda>f. (name f, risk_category f, contribution f)))
     (calculate_risk_factors no_float no_int scenario_record) =
   Inr [(''Age'', ''High'', 0.40), (''BMI'', ''High'', 0.15), (''Glucose Level'', ''High'', 0.20),
        (''Hypertension'', ''High'', 0.25), (''Heart Disease'', ''Low'', 0),
        (''Smoking Status'', ''High'', 0.15)]"
proof -
  have a: "py_float no_float (dict_get scenario_record ''age'' (PyInt 0)) = Inr 70"
    and b: "py_float no_float (dict_get scenario_record ''bmi'' (PyInt 0)) = Inr 32"
    and c: "py_float no_float (dict_get scenario_record ''avg_glucose_level'' (PyInt 0)) = Inr 150"
    and d: "py_int no_int (dict_get scenario_record ''hypertension'' (PyInt 0)) = Inr 1"
    and e: "py_int no_int (dict_get scenario_record ''heart_disease'' (PyInt 0)) = Inr 0"
    and s: "dict_get scenario_record ''smoking_status'' (PyStr ''never smoked'') = PyStr ''smokes''"
    by (simp_all add: scenario_record_def dict_get_def)
  from calculate_risk_factors_six [OF a b c d e] obtain fs where
    r: "calculate_risk_factors no_float no_int scenario_record = Inr fs"
    and l: "length fs = 6"
    and n: "map name fs = [''Age'', ''BMI'', ''Glucose Level'', ''Hypertension'', ''Heart Disease'',
                    ''Smoking Status'']"
    and k: "map contribution fs = [0.40, 0.15, 0.20, 0.25, 0, 0.15]"
    and g: "map risk_category fs = [''High'', ''High'', ''High'', ''High'', ''Low'', ''High'']"
    unfolding s by auto
  from l obtain f1 f2 f3 f4 f5 f6 where fs: "fs = [f1, f2, f3, f4, f5, f6]"
    by (auto simp: length_Suc_conv numeral_eq_Suc)
  show ?thesis using n k g by (simp add: r fs)
qed

text \<open>
  The claim as stated, for every input record, fails: a record whose bmi is null makes
  \<^verbatim>\<open>float(None)\<close> raise TypeError, and no factor list is returned.
\<close>

theorem calculate_risk_factors_null_bmi:
  "calculate_risk_factors no_float no_int (scenario_record(''bmi'' \<mapsto> PyNone)) = Inl TypeError"
  by (simp add: calculate_risk_factors_def scenario_record_def dict_get_def)

text \<open>The hypotheses of C4 are exact: the analyzer returns only if all five conversions do.\<close>

lemma calculate_risk_factors_returns_iff:
  "(\<exists>fs. calculate_risk_factors sf si d = Inr fs) \<longleftrightarrow>
   (\<exists>a. py_float sf (dict_get d ''age'' (PyInt 0)) = Inr a) \<and>
   (\<exists>b. py_float sf (dict_get d ''bmi'' (PyInt 0)) = Inr b) \<and>
   (\<exists>g. py_float sf (dict_get d ''avg_glucose_level'' (PyInt 0)) = Inr g) \<and>
   (\<exists>h. py_int si (dict_get d ''hypertension'' (PyInt 0)) = Inr h) \<and>
   (\<exists>h. py_int si (dict_get d ''heart_disease'' (PyInt 0)) = Inr h)"
  by (auto simp: calculate_risk_factors_def split: sum.splits)

text \<open>Numbers, booleans and missing keys always convert.\<close>

lemma py_float_numeric: "numeric v \<Longrightarrow> \<exists>r. py_float sf v = Inr r"
  by (cases v) (simp_all add: numeric_def)

lemma py_int_numeric: "numeric v \<Longrightarrow> \<exists>i. py_int si v = Inr i"
  by (cases v) (simp_all add: numeric_def)

subsection \<open>Recommendations\<close>

lemma factor_recommendation_numeric:
  "(name f \<in> {''BMI'', ''Glucose Level''} \<longrightarrow> numeric (fvalue f)) \<Longrightarrow>
   factor_recommendation f = Inr (fired f)"
  by (cases "fvalue f")
     (auto simp: factor_recommendation_def fired_def numeric_def split: sum.splits bool.splits)

lemma check_factors_numeric:
  "measured_numerically fs \<Longrightarrow> check_factors fs acc = Inr (acc @ concat (map fired fs))"
proof (induction fs arbitrary: acc)
  case Nil
  then show ?case by simp
next
  case (Cons f fs)
  from Cons.prems have f: "factor_recommendation f = Inr (fired f)"
    and r: "measured_numerically fs"
    by (simp_all add: measured_numerically_def factor_recommendation_numeric)
  show ?case by (simp add: f Cons.IH [OF r])
qed

text \<open>Every list the analyzer returns has numbers where the rules compare.\<close>

lemma calculate_risk_factors_measured:
  "calculate_risk_factors sf si d = Inr fs \<Longrightarrow> measured_numerically fs"
  by (auto simp: calculate_risk_factors_def measured_numerically_def numeric_def
      age_factor_def bmi_factor_def glucose_factor_def
      hypertension_factor_def heart_disease_factor_def smoking_factor_def split: sum.splits)

text \<open>
  C8. For every probability and every factor list (with numbers in its BMI and Glucose
  Level entries, the only values the rules compare), the generator returns a list; the
  list is never empty and has at most 5 entries; it is the first five of the probability
  rule's two entries followed by what each factor adds, in the order of the list; and when
  no rule fires it is the fallback pair.
\<close>

theorem get_recommendations_capped_nonempty:
  assumes "measured_numerically fs"
  shows "\<exists>recs. get_recommendations p fs = Inr recs \<and> recs \<noteq> [] \<and> length recs \<le> 5 \<and>
    recs = take 5
      (let rules = (if p > 0.4 then [''Regular blood pressure monitoring'', ''Annual health checkups'']
                    else []) @ concat (map fired fs)
       in if rules = []
          then [''Maintain current healthy lifestyle'', ''Regular exercise and balanced diet'']
          else rules) \<and>
    (\<not> p > 0.4 \<and> concat (map fired fs) = [] \<longrightarrow>
       recs = [''Maintain current healthy lifestyle'', ''Regular exercise and balanced diet''])"
  by (auto simp: get_recommendations_def check_factors_numeric [OF assms] Let_def)

theorem get_recommendations_scenario:
  "measured_numerically scenario_factors \<and>
   get_recommendations 0.7 scenario_factors =
     Inr [''Regular blood pressure monitoring'', ''Annual health checkups'',
          ''Weight management program'', ''Diabetes screening and management'',
          ''Smoking cessation support'']"
proof -
  have m: "measured_numerically scenario_factors"
    by (simp add: measured_numerically_def scenario_factors_def numeric_def
        age_factor_def bmi_factor_def glucose_factor_def
        hypertension_factor_def heart_disease_factor_def smoking_factor_def)
  have f: "concat (map fired scenario_factors) =
      [''Weight management program'', ''Diabetes screening and management'',
       ''Smoking cessation support'']"
    by (simp add: scenario_factors_def fired_def factor_recommendation_def
        age_factor_def bmi_factor_def glucose_factor_def
        hypertension_factor_def heart_disease_factor_def smoking_factor_def)
  from get_recommendations_capped_nonempty [OF m, of "0.7"] m show ?thesis
    by (auto simp: f)
qed

text \<open>The fallback pair on a record where nothing fires, and the cap on a long list.\<close>

lemma get_recommendations_fallback:
  "get_recommendations 0.1 [age_factor 30, bmi_factor 22, glucose_factor 90] =
     Inr [''Maintain current healthy lifestyle'', ''Regular exercise and balanced diet'']"
  by (simp add: get_recommendations_def factor_recommendation_def
      age_factor_def bmi_factor_def glucose_factor_def)

lemma get_recommendations_cap:
  "map_sum id length
     (get_recommendations 0.7 [bmi_factor 32, bmi_factor 33, bmi_factor 34, bmi_factor 35]) = Inr 5"
  by (simp add: get_recommendations_def factor_recommendation_def bmi_factor_def)

subsection \<open>Record Store: the append\<close>

lemma insert_factors_fails:
  "i < length fs \<Longrightarrow> factor_insert_fails fails (k + i) (fs ! i) \<Longrightarrow>
   insert_factors fails k pid fs w = Inl StoreError"
proof (induction fs arbitrary: i k w)
  case Nil
  then show ?case by simp
next
  case (Cons f fs)
  show ?case
  proof (cases i)
    case 0
    with Cons.prems show ?thesis by simp
  next
    case (Suc j)
    with Cons.prems have "j < length fs" "factor_insert_fails fails (Suc k + j) (fs ! j)"
      by simp_all
    from Cons.IH [OF this] show ?thesis by simp
  qed
qed

lemma insert_factors_ok:
  "insert_factors fails k pid fs w = Inr w' \<Longrightarrow>
   w' = w\<lparr>risk_factor_rows := risk_factor_rows w @ factor_rows pid fs\<rparr>"
proof (induction fs arbitrary: k w)
  case Nil
  then show ?case by (simp add: factor_rows_def)
next
  case (Cons f fs)
  let ?w = "w\<lparr>risk_factor_rows := risk_factor_rows w @
                  [\<lparr>rf_prediction_id = pid, rf_factor_name = name f,
                    rf_factor_value = fvalue f, rf_contribution = contribution f\<rparr>]\<rparr>"
  from Cons.prems have "insert_factors fails (Suc k) pid fs ?w = Inr w'"
    by (auto split: if_splits)
  from Cons.IH [OF this] show ?case
    by (simp add: factor_rows_def)
qed

text \<open>
  Every append leaves the file either as it was or with the parent row and all of its
  child rows: there is no state in between.
\<close>

lemma save_prediction_atomic:
  "snd (save_prediction_to_db fails now_id now_iso data result file) = file \<or>
   (\<exists>row. snd (save_prediction_to_db fails now_id now_iso data result file) =
      file\<lparr>predictions := predictions file @ [(Suc (seq file), row)],
           seq := Suc (seq file),
           risk_factor_rows := risk_factor_rows file @
             factor_rows (Suc (seq file)) (case risk_factors result of None \<Rightarrow> [] | Some fs \<Rightarrow> fs)\<rparr>)"
  by (auto simp: save_prediction_to_db_def Let_def factor_rows_def
      split: option.splits sum.splits dest!: insert_factors_ok)

text \<open>
  C3. If the insert of any child row fails (factor number \<open>k\<close> of the result), the
  append ends with the database file exactly as it was before the call, so neither the
  parent row nor any child row of the attempt is committed, and the caller gets the pair
  (None, None): no generated id.
\<close>

theorem save_prediction_all_or_nothing:
  assumes "risk_factors result = Some factors" "k < length factors"
    "factor_insert_fails fails k (factors ! k)"
  shows "save_prediction_to_db fails now_id now_iso data result file = ((None, None), file)"
proof -
  have "insert_factors fails 0 pid factors w = Inl StoreError" for pid w
    using insert_factors_fails [of k factors fails 0] assms by simp
  then show ?thesis
    by (simp add: save_prediction_to_db_def Let_def assms(1))
qed

theorem save_prediction_third_factor_fails:
  "risk_factors scenario_result = Some scenario_factors \<and>
   2 < length scenario_factors \<and>
   factor_insert_fails third_factor_fails 2 (scenario_factors ! 2) \<and>
   save_prediction_to_db third_factor_fails ''20261104120000'' ''2026-11-04T12:00:00''
     scenario_record scenario_result empty_db = ((None, None), empty_db)"
proof -
  have a: "risk_factors scenario_result = Some scenario_factors"
    by (simp add: scenario_result_def)
  have b: "2 < length scenario_factors"
    by (simp add: scenario_factors_def)
  have c: "factor_insert_fails third_factor_fails 2 (scenario_factors ! 2)"
    by (simp add: factor_insert_fails_def third_factor_fails_def)
  from save_prediction_all_or_nothing [OF a b c] a b c show ?thesis
    by simp
qed

text \<open>With no failure the same append commits the parent row and its six child rows.\<close>

lemma save_prediction_commits:
  "fst (save_prediction_to_db (\<lambda>op. False) ''20261104120000'' ''2026-11-04T12:00:00''
          scenario_record scenario_result empty_db) =
     (Some 1, Some (PyStr ''PATIENT_20261104120000'')) \<and>
   map fst (predictions (snd (save_prediction_to_db (\<lambda>op. False) ''20261104120000''
          ''2026-11-04T12:00:00'' scenario_record scenario_result empty_db))) = [1] \<and>
   risk_factor_rows (snd (save_prediction_to_db (\<lambda>op. False) ''20261104120000''
          ''2026-11-04T12:00:00'' scenario_record scenario_result empty_db)) =
     factor_rows 1 scenario_factors"
  by (simp add: save_prediction_to_db_def Let_def scenario_result_def scenario_factors_def
      scenario_record_def dict_get_def empty_db_def prediction_bindable_def bindable_def
      factor_insert_fails_def factor_rows_def
      age_factor_def bmi_factor_def glucose_factor_def
      hypertension_factor_def heart_disease_factor_def smoking_factor_def)

subsection \<open>The prediction request and the outcome of the append\<close>

text \<open>
  The append answers either (None, None) or the fresh id together with the patient id;
  the id is never 0.
\<close>

lemma save_prediction_id:
  "fst (save_prediction_to_db fails now_id now_iso data result file) = (None, None) \<or>
   (\<exists>pat. fst (save_prediction_to_db fails now_id now_iso data result file) =
      (Some (Suc (seq file)), Some pat))"
  by (auto simp: save_prediction_to_db_def Let_def split: sum.splits option.splits)

text \<open>Any call into sqlite3 that raises makes the append answer (None, None).\<close>

lemma save_prediction_fails:
  assumes "risk_factors result = Some factors"
    and "fails OpConnect \<or> fails OpInsertPrediction \<or>
         (\<exists>k<length factors. fails (OpInsertFactor k)) \<or> fails OpCommit \<or> fails OpClose"
  shows "fst (save_prediction_to_db fails now_id now_iso data result file) = (None, None)"
proof (cases "\<exists>k<length factors. fails (OpInsertFactor k)")
  case True
  then obtain k where "k < length factors" "factor_insert_fails fails (0 + k) (factors ! k)"
    by (auto simp: factor_insert_fails_def)
  from insert_factors_fails [OF this]
  have "insert_factors fails 0 pid factors w = Inl StoreError" for pid w .
  then show ?thesis
    by (simp add: save_prediction_to_db_def Let_def assms(1))
next
  case False
  with assms(2) show ?thesis
    by (auto simp: save_prediction_to_db_def Let_def assms(1) split: sum.splits)
qed

text \<open>So does a value that sqlite3 cannot bind, in the request or in a factor.\<close>

lemma save_prediction_unbindable:
  assumes "risk_factors result = Some factors"
    and "PyOther \<in> {dict_get data ''patient_id'' (PyStr (''PATIENT_'' @ now_id)),
           dict_get data ''gender'' PyNone, dict_get data ''age'' PyNone,
           dict_get data ''hypertension'' PyNone, dict_get data ''heart_disease'' PyNone,
           dict_get data ''ever_married'' PyNone, dict_get data ''work_type'' PyNone,
           dict_get data ''Residence_type'' PyNone, dict_get data ''avg_glucose_level'' PyNone,
           dict_get data ''bmi'' PyNone, dict_get data ''smoking_status'' PyNone,
           dict_get data ''notes'' (PyStr [])} \<or>
         (\<exists>k<length factors. fvalue (factors ! k) = PyOther)"
  shows "fst (save_prediction_to_db fails now_id now_iso data result file) = (None, None)"
proof (cases "\<exists>k<length factors. fvalue (factors ! k) = PyOther")
  case True
  then obtain k where "k < length factors" "factor_insert_fails fails (0 + k) (factors ! k)"
    by (auto simp: factor_insert_fails_def bindable_def)
  from insert_factors_fails [OF this]
  have "insert_factors fails 0 pid factors w = Inl StoreError" for pid w .
  then show ?thesis
    by (simp add: save_prediction_to_db_def Let_def assms(1))
next
  case False
  with assms(2) show ?thesis
    by (auto simp: save_prediction_to_db_def Let_def prediction_bindable_def bindable_def)
qed

text \<open>On the analyzer's own factor list the recommendation generator always returns.\<close>

lemma get_recommendations_returns:
  "calculate_risk_factors sf si d = Inr fs \<Longrightarrow> \<exists>recs. get_recommendations p fs = Inr recs"
  by (simp add: get_recommendations_def Let_def
      check_factors_numeric [OF calculate_risk_factors_measured])

text \<open>
  C2, as the code has it. Take any request on which the classifier and the analyzer
  answer. The prediction response is returned whatever the append does, with the
  classifier's label and probabilities, the risk tier and the factor list. The append is
  called on that response without the three database keys. If it fails, that is, if it
  answers (None, None), for whatever reason (a call into sqlite3 that raises, or a value
  that cannot be bound), then the response carries no field \<^verbatim>\<open>saved_to_database\<close>
  at all, nor \<^verbatim>\<open>prediction_id\<close> or \<^verbatim>\<open>patient_id\<close>: the handler sets the three
  keys only after a successful append and has no else branch. The field is present
  exactly when the append answered an id, and then its value is true; it is never false.
\<close>

theorem predict_store_failure:
  assumes "clf data = Inr (pred, prob0, prob1)"
    and "calculate_risk_factors sf si data = Inr factors"
  shows "\<exists>resp. fst (predict clf sf si fails now_id now_iso data file) = Inr resp \<and>
     prediction resp = pred \<and> probability_no_stroke resp = prob0 \<and>
     probability_stroke resp = prob1 \<and> risk_level resp = risk_level_of prob1 \<and>
     risk_factors resp = Some factors \<and>
     (fst (save_prediction_to_db fails now_id now_iso data
             (prediction_result.truncate resp) file) = (None, None) \<longrightarrow>
        saved_to_database resp = None \<and> prediction_id resp = None \<and> patient_id resp = None) \<and>
     (prediction_id resp, patient_id resp) =
        fst (save_prediction_to_db fails now_id now_iso data
               (prediction_result.truncate resp) file) \<and>
     saved_to_database resp =
        (if fst (save_prediction_to_db fails now_id now_iso data
                   (prediction_result.truncate resp) file) = (None, None)
         then None else Some True)"
proof -
  from get_recommendations_returns [OF assms(2), of prob1]
  obtain recs where r: "get_recommendations prob1 factors = Inr recs" by blast
  define result where "result =
    \<lparr>prediction = pred, probability_no_stroke = prob0, probability_stroke = prob1,
     risk_level = risk_level_of prob1, confidence = max prob0 prob1 * 100,
     risk_factors = Some factors, interpretation_text = get_interpretation prob1 factors,
     recommendations = recs\<rparr>"
  define saved where "saved = fst (save_prediction_to_db fails now_id now_iso data result file)"
  define resp where "resp = prediction_result.extend result
     (if fst saved \<noteq> None \<and> fst saved \<noteq> Some 0
      then response.fields (fst saved) (snd saved) (Some True)
      else response.fields None None None)"
  have p: "fst (predict clf sf si fails now_id now_iso data file) = Inr resp"
    by (simp add: predict_def assms r Let_def result_def saved_def resp_def)
  have t: "prediction_result.truncate resp = result"
    by (simp add: resp_def result_def prediction_result.defs)
  have f: "prediction resp = pred" "probability_no_stroke resp = prob0"
    "probability_stroke resp = prob1" "risk_level resp = risk_level_of prob1"
    "risk_factors resp = Some factors"
    by (simp_all add: resp_def result_def prediction_result.defs)
  from save_prediction_id [of fails now_id now_iso data result "file"]
  consider "saved = (None, None)" | pat where "saved = (Some (Suc (seq file)), Some pat)"
    unfolding saved_def by blast
  then have g: "(saved = (None, None) \<longrightarrow>
        saved_to_database resp = None \<and> prediction_id resp = None \<and> patient_id resp = None) \<and>
     (prediction_id resp, patient_id resp) = saved \<and>
     saved_to_database resp = (if saved = (None, None) then None else Some True)"
    by cases (simp_all add: resp_def result_def prediction_result.defs response.defs)
  note g [unfolded saved_def, folded t]
  with p f show ?thesis
    by blast
qed

text \<open>
  Three requests on the empty database: the scenario record with the database
  unreachable; the scenario record with a list as its notes, which the classifier does
  not read and sqlite3 cannot bind; and the scenario record with nothing failing.
\<close>

theorem predict_store_failure_scenario:
  "example_clf scenario_record = Inr (1, 0.3, 0.7) \<and>
   calculate_risk_factors no_float no_int scenario_record = Inr scenario_factors \<and>
   (\<exists>resp. fst (predict example_clf no_float no_int store_down ''20261104120000''
                   ''2026-11-04T12:00:00'' scenario_record empty_db) = Inr resp \<and>
      fst (save_prediction_to_db store_down ''20261104120000'' ''2026-11-04T12:00:00''
             scenario_record (prediction_result.truncate resp) empty_db) = (None, None) \<and>
      saved_to_database resp = None \<and> prediction_id resp = None \<and> patient_id resp = None \<and>
      prediction resp = 1 \<and> probability_stroke resp = 0.7 \<and>
      risk_factors resp = Some scenario_factors) \<and>
   example_clf (scenario_record(''notes'' \<mapsto> PyOther)) = Inr (1, 0.3, 0.7) \<and>
   calculate_risk_factors no_float no_int (scenario_record(''notes'' \<mapsto> PyOther)) =
     Inr scenario_factors \<and>
   (\<exists>resp. fst (predict example_clf no_float no_int (\<lambda>op. False) ''20261104120000''
                   ''2026-11-04T12:00:00'' (scenario_record(''notes'' \<mapsto> PyOther)) empty_db) =
             Inr resp \<and>
      fst (save_prediction_to_db (\<lambda>op. False) ''20261104120000'' ''2026-11-04T12:00:00''
             (scenario_record(''notes'' \<mapsto> PyOther)) (prediction_result.truncate resp)
             empty_db) = (None, None) \<and>
      saved_to_database resp = None \<and> prediction_id resp = None \<and> patient_id resp = None \<and>
      prediction resp = 1 \<and> probability_stroke resp = 0.7 \<and>
      risk_factors resp = Some scenario_factors) \<and>
   (\<exists>resp. fst (predict example_clf no_float no_int (\<lambda>op. False) ''20261104120000''
                   ''2026-11-04T12:00:00'' scenario_record empty_db) = Inr resp \<and>
      saved_to_database resp = Some True \<and> prediction_id resp = Some 1 \<and>
      patient_id resp = Some (PyStr ''PATIENT_20261104120000''))"
proof -
  have a: "example_clf d = Inr (1, 0.3, 0.7)" for d
    by (simp add: example_clf_def)
  have b: "calculate_risk_factors no_float no_int scenario_record = Inr scenario_factors"
    by (simp add: calculate_risk_factors_def scenario_record_def dict_get_def
        scenario_factors_def)
  have b': "calculate_risk_factors no_float no_int (scenario_record(''notes'' \<mapsto> PyOther)) =
      Inr scenario_factors"
    by (simp add: calculate_risk_factors_def scenario_record_def dict_get_def
        scenario_factors_def)
  have s1: "fst (save_prediction_to_db store_down ''20261104120000'' ''2026-11-04T12:00:00''
             scenario_record result empty_db) = (None, None)" for result
    by (simp add: save_prediction_to_db_def store_down_def)
  have s2: "fst (save_prediction_to_db (\<lambda>op. False) ''20261104120000'' ''2026-11-04T12:00:00''
             (scenario_record(''notes'' \<mapsto> PyOther)) result empty_db) = (None, None)"
    for result
    by (simp add: save_prediction_to_db_def Let_def dict_get_def prediction_bindable_def
        bindable_def)
  have s3: "fst (save_prediction_to_db (\<lambda>op. False) ''20261104120000'' ''2026-11-04T12:00:00''
             scenario_record result empty_db) =
        (Some 1, Some (PyStr ''PATIENT_20261104120000''))"
    if "risk_factors result = Some scenario_factors" for result
    by (simp add: save_prediction_to_db_def Let_def that scenario_factors_def
        scenario_record_def dict_get_def empty_db_def prediction_bindable_def bindable_def
        factor_insert_fails_def age_factor_def bmi_factor_def glucose_factor_def
        hypertension_factor_def heart_disease_factor_def smoking_factor_def
        split: sum.splits)
  from predict_store_failure [where clf = example_clf and data = scenario_record
      and fails = store_down and now_id = "''20261104120000''"
      and now_iso = "''2026-11-04T12:00:00''", OF a b, of empty_db]
  have c1: "\<exists>resp. fst (predict example_clf no_float no_int store_down ''20261104120000''
                   ''2026-11-04T12:00:00'' scenario_record empty_db) = Inr resp \<and>
      fst (save_prediction_to_db store_down ''20261104120000'' ''2026-11-04T12:00:00''
             scenario_record (prediction_result.truncate resp) empty_db) = (None, None) \<and>
      saved_to_database resp = None \<and> prediction_id resp = None \<and> patient_id resp = None \<and>
      prediction resp = 1 \<and> probability_stroke resp = 0.7 \<and>
      risk_factors resp = Some scenario_factors"
    by (auto simp: s1)
  from predict_store_failure [where clf = example_clf
      and data = "scenario_record(''notes'' \<mapsto> PyOther)"
      and fails = "\<lambda>op. False" and now_id = "''20261104120000''"
      and now_iso = "''2026-11-04T12:00:00''", OF a b', of empty_db]
  have c2: "\<exists>resp. fst (predict example_clf no_float no_int (\<lambda>op. False) ''20261104120000''
                   ''2026-11-04T12:00:00'' (scenario_record(''notes'' \<mapsto> PyOther)) empty_db) =
             Inr resp \<and>
      fst (save_prediction_to_db (\<lambda>op. False) ''20261104120000'' ''2026-11-04T12:00:00''
             (scenario_record(''notes'' \<mapsto> PyOther)) (prediction_result.truncate resp)
             empty_db) = (None, None) \<and>
      saved_to_database resp = None \<and> prediction_id resp = None \<and> patient_id resp = None \<and>
      prediction resp = 1 \<and> probability_stroke resp = 0.7 \<and>
      risk_factors resp = Some scenario_factors"
    by (auto simp: s2)
  from predict_store_failure [where clf = example_clf and data = scenario_record
      and fails = "\<lambda>op. False" and now_id = "''20261104120000''"
      and now_iso = "''2026-11-04T12:00:00''", OF a b, of empty_db]
  obtain resp where
    q: "fst (predict example_clf no_float no_int (\<lambda>op. False) ''20261104120000''
              ''2026-11-04T12:00:00'' scenario_record empty_db) = Inr resp"
    and rf: "risk_factors resp = Some scenario_factors"
    and ids: "(prediction_id resp, patient_id resp) =
        fst (save_prediction_to_db (\<lambda>op. False) ''20261104120000'' ''2026-11-04T12:00:00''
               scenario_record (prediction_result.truncate resp) empty_db)"
    and fl: "saved_to_database resp =
        (if fst (save_prediction_to_db (\<lambda>op. False) ''20261104120000'' ''2026-11-04T12:00:00''
                   scenario_record (prediction_result.truncate resp) empty_db) = (None, None)
         then None else Some True)"
    by blast
  from rf have "risk_factors (prediction_result.truncate resp) = Some scenario_factors"
    by (simp add: prediction_result.defs)
  note s3 [OF this]
  with ids fl have "saved_to_database resp = Some True \<and> prediction_id resp = Some 1 \<and>
      patient_id resp = Some (PyStr ''PATIENT_20261104120000'')"
    by simp
  with q have c3: "\<exists>resp. fst (predict example_clf no_float no_int (\<lambda>op. False)
        ''20261104120000'' ''2026-11-04T12:00:00'' scenario_record empty_db) = Inr resp \<and>
      saved_to_database resp = Some True \<and> prediction_id resp = Some 1 \<and>
      patient_id resp = Some (PyStr ''PATIENT_20261104120000'')"
    by blast
  from a b b' c1 c2 c3 show ?thesis by blast
qed

text \<open>
  The claim as stated fails on the first of these requests: the response is returned, but
  its field \<^verbatim>\<open>saved_to_database\<close> is absent, not false.
\<close>

theorem predict_store_down_flag_absent:
  "map_sum id saved_to_database
     (fst (predict example_clf no_float no_int store_down ''20261104120000''
             ''2026-11-04T12:00:00'' scenario_record empty_db)) = Inr None \<and>
   map_sum id saved_to_database
     (fst (predict example_clf no_float no_int store_down ''20261104120000''
             ''2026-11-04T12:00:00'' scenario_record empty_db)) \<noteq> Inr (Some False)"
  by (simp add: predict_def example_clf_def calculate_risk_factors_def scenario_record_def
      dict_get_def get_recommendations_def factor_recommendation_def Let_def
      save_prediction_to_db_def store_down_def prediction_result.defs response.defs
      age_factor_def bmi_factor_def glucose_factor_def hypertension_factor_def
      heart_disease_factor_def smoking_factor_def)

text \<open>
  No request at all, whatever the classifier and the analyzer do, gets a response whose
  \<^verbatim>\<open>saved_to_database\<close> is false; and the three database keys are present together or
  not at all.
\<close>

lemma predict_never_false:
  "fst (predict clf sf si fails now_id now_iso data file) = Inr resp \<Longrightarrow>
   saved_to_database resp \<noteq> Some False \<and>
   (saved_to_database resp = Some True \<longleftrightarrow> prediction_id resp \<noteq> None)"
  by (auto simp: predict_def Let_def prediction_result.defs response.defs
      split: sum.splits prod.splits if_splits)

subsection \<open>Aggregation Engine\<close>



lemma sql_true_high_and_gt:
  "sql_true (sql_and (sql_in v [''High'', ''Very High'']) (sql_gt q 0.5)) \<longleftrightarrow>
   v \<in> {Some ''High'', Some ''Very High''} \<and> (case q of None \<Rightarrow> False | Some p \<Rightarrow> p > 0.5)"
  by (cases v; cases q) (auto simp: sql_true_def sql_and_def sql_in_def sql_gt_def)

text \<open>The dictionary built from a GROUP BY query: each key that occurs, with its count.\<close>

lemma map_of_group_count:
  "map_of (group_count key rows) k =
     (if k \<in> key ` set rows then Some (length (filter (\<lambda>r. key r = k) rows)) else None)"
  by (simp add: group_count_def map_of_map_restrict restrict_map_def)

text \<open>
  C6. In every store state the global count \<^verbatim>\<open>high_risk_patients\<close> is the number of
  rows whose risk level is High or Very High and whose stroke probability is above 0.5
  (both conditions); so it is at most the number of rows with such a risk level, which is
  also what \<^verbatim>\<open>risk_distribution\<close> reports for the two levels, and it is strictly smaller
  as soon as some High or Very High row has a probability of at most 0.5.
\<close>

theorem high_risk_patients_both_conditions:
  "high_risk_patients (get_dashboard_data rows) =
     length (filter (\<lambda>r. col_risk_level r \<in> {Some ''High'', Some ''Very High''} \<and>
                          (case col_stroke_probability r of None \<Rightarrow> False | Some p \<Rightarrow> p > 0.5))
               rows) \<and>
   high_risk_patients (get_dashboard_data rows) \<le>
     length (filter (\<lambda>r. col_risk_level r \<in> {Some ''High'', Some ''Very High''}) rows) \<and>
   length (filter (\<lambda>r. col_risk_level r \<in> {Some ''High'', Some ''Very High''}) rows) =
     (case risk_distribution (get_dashboard_data rows) (Some ''High'') of
        None \<Rightarrow> 0 | Some n \<Rightarrow> n) +
     (case risk_distribution (get_dashboard_data rows) (Some ''Very High'') of
        None \<Rightarrow> 0 | Some n \<Rightarrow> n) \<and>
   ((\<exists>r \<in> set rows. col_risk_level r \<in> {Some ''High'', Some ''Very High''} \<and>
        (\<exists>p. col_stroke_probability r = Some p \<and> p \<le> 0.5)) \<longrightarrow>
    high_risk_patients (get_dashboard_data rows) <
      length (filter (\<lambda>r. col_risk_level r \<in> {Some ''High'', Some ''Very High''}) rows))"
proof -
  let ?Q = "\<lambda>r. col_risk_level r \<in> {Some ''High'', Some ''Very High''}"
  let ?P = "\<lambda>r. ?Q r \<and> (case col_stroke_probability r of None \<Rightarrow> False | Some p \<Rightarrow> p > 0.5)"
  have h: "high_risk_patients (get_dashboard_data rows) = length (filter ?P rows)"
    by (simp only: get_dashboard_data_def high_risk_query_def sql_true_high_and_gt
        dashboard.select_convs)
  have pq: "filter ?P rows = filter ?P (filter ?Q rows)"
    by (simp add: conj_commute cong: conj_cong)
  have le: "length (filter ?P rows) \<le> length (filter ?Q rows)"
    by (subst pq) (rule length_filter_le)
  have split: "length (filter ?Q rows) =
      length (filter (\<lambda>r. col_risk_level r = Some ''High'') rows) +
      length (filter (\<lambda>r. col_risk_level r = Some ''Very High'') rows)"
    by (induction rows) auto
  have dist: "length (filter ?Q rows) =
     (case risk_distribution (get_dashboard_data rows) (Some ''High'') of
        None \<Rightarrow> 0 | Some n \<Rightarrow> n) +
     (case risk_distribution (get_dashboard_data rows) (Some ''Very High'') of
        None \<Rightarrow> 0 | Some n \<Rightarrow> n)"
    unfolding split
    by (auto simp: get_dashboard_data_def map_of_group_count filter_empty_conv image_iff)
  have lt: "length (filter ?P rows) < length (filter ?Q rows)"
    if "r \<in> set rows" "?Q r" "col_stroke_probability r = Some p" "p \<le> 0.5" for r p
  proof -
    from that have "r \<in> set (filter ?Q rows)" "\<not> ?P r" by auto
    then have "length (filter ?P (filter ?Q rows)) < length (filter ?Q rows)"
      by (rule length_filter_less)
    with pq show ?thesis by simp
  qed
  from h le dist lt show ?thesis by (simp only: h) blast
qed

text \<open>
  The example store: one row satisfies both conditions, two rows carry a High label.
\<close>

theorem high_risk_patients_example:
  "high_risk_patients (get_dashboard_data example_store) = 1 \<and>
   length (filter (\<lambda>r. col_risk_level r \<in> {Some ''High'', Some ''Very High''}) example_store) = 2 \<and>
   example_other \<in> set example_store \<and>
   col_risk_level example_other \<in> {Some ''High'', Some ''Very High''} \<and>
   col_stroke_probability example_other = Some 0.45 \<and>
   high_risk_patients (get_dashboard_data example_store) <
     length (filter (\<lambda>r. col_risk_level r \<in> {Some ''High'', Some ''Very High''}) example_store)"
proof -
  have a: "example_other \<in> set example_store"
    by (simp add: example_store_def)
  have b: "col_risk_level example_other \<in> {Some ''High'', Some ''Very High''}"
    by (simp add: example_other_def example_row_def)
  have c: "col_stroke_probability example_other = Some 0.45"
    by (simp add: example_other_def example_row_def)
  have d: "length (filter (\<lambda>r. col_risk_level r \<in> {Some ''High'', Some ''Very High''})
      example_store) = 2"
    by (simp add: example_store_def example_males_def example_other_def example_row_def)
  have e: "\<exists>r \<in> set example_store. col_risk_level r \<in> {Some ''High'', Some ''Very High''} \<and>
        (\<exists>p. col_stroke_probability r = Some p \<and> p \<le> 0.5)"
    by (rule bexI [OF _ a], rule conjI [OF b], rule exI [of _ "0.45"], simp add: c)
  have f: "length (filter (\<lambda>r. col_risk_level r \<in> {Some ''High'', Some ''Very High''} \<and>
                          (case col_stroke_probability r of None \<Rightarrow> False | Some p \<Rightarrow> p > 0.5))
               example_store) = 1"
    by (simp add: example_store_def example_males_def example_other_def example_row_def)
  from high_risk_patients_both_conditions [of example_store] a b c d e f
  show ?thesis by simp
qed











text \<open>
  The age distribution query: grouping by bucket and sorting by the bucket's rank gives the
  buckets that occur, each with its count, in the order of the four ranks.
\<close>

lemma age_distribution_query_eq:
  "age_distribution_query rows =
     filter (\<lambda>(g, n). 0 < n)
       (map (\<lambda>g. (g, length (filter (\<lambda>r. age_group (col_age r) = g) rows)))
          [''Under 30'', ''30-49'', ''50-64'', ''65+''])"
proof -
  define K where "K = (\<lambda>r :: stored_prediction. age_group (col_age r))"
  define cnt where "cnt = (\<lambda>g. length (filter (\<lambda>r. K r = g) rows))"
  define F where "F = (\<lambda>p :: string \<times> nat. age_group_order (fst p))"
  define B where "B = [''Under 30'', ''30-49'', ''50-64'', ''65+'']"
  define zs where "zs = map (\<lambda>g. (g, cnt g)) B"
  define xs where "xs = sort_key F (group_count K rows)"
  define ys where "ys = filter (\<lambda>(g, n). 0 < n) zs"
  have KB: "K r \<in> set B" for r
    by (simp add: K_def B_def age_group_def)
  have pos: "0 < cnt g \<longleftrightarrow> g \<in> K ` set rows" for g
    by (auto simp: cnt_def filter_empty_conv image_iff)
  have gc: "group_count K rows = map (\<lambda>k. (k, cnt k)) (remdups (map K rows))"
    by (simp add: group_count_def cnt_def)
  have sx: "set xs = (\<lambda>k. (k, cnt k)) ` (K ` set rows)"
    by (simp add: xs_def gc)
  have sy: "set ys = (\<lambda>k. (k, cnt k)) ` (K ` set rows)"
  proof
    show "set ys \<subseteq> (\<lambda>k. (k, cnt k)) ` (K ` set rows)"
      by (auto simp: ys_def zs_def pos)
    show "(\<lambda>k. (k, cnt k)) ` (K ` set rows) \<subseteq> set ys"
    proof
      fix p assume "p \<in> (\<lambda>k. (k, cnt k)) ` (K ` set rows)"
      then obtain r where r: "r \<in> set rows" and p: "p = (K r, cnt (K r))" by auto
      from r have "0 < cnt (K r)" by (simp add: pos)
      with KB [of r] show "p \<in> set ys"
        by (simp add: ys_def zs_def p image_iff)
    qed
  qed
  have injF: "inj_on F ((\<lambda>k. (k, cnt k)) ` set B)"
    by (simp add: inj_on_def F_def B_def age_group_order_def)
  have sub: "(\<lambda>k. (k, cnt k)) ` (K ` set rows) \<subseteq> (\<lambda>k. (k, cnt k)) ` set B"
    using KB by auto
  have i: "inj_on F (set xs \<union> set ys)"
    unfolding sx sy using inj_on_subset [OF injF sub] by simp
  have s1: "sorted (map F xs)"
    unfolding xs_def by (rule sorted_sort_key)
  have "distinct (group_count K rows)"
    unfolding gc by (simp add: distinct_map inj_on_def)
  then have "distinct xs"
    by (simp add: xs_def)
  moreover have "inj_on F (set xs)"
    using i by (rule inj_on_subset) simp
  ultimately have d1: "distinct (map F xs)"
    by (simp add: distinct_map)
  have mz: "map F zs = [1, 2, 3, 4]"
    by (simp add: zs_def F_def B_def age_group_order_def)
  have s2: "sorted (map F ys)"
    unfolding ys_def by (rule sorted_filter) (simp add: mz)
  have d2: "distinct (map F ys)"
    unfolding ys_def by (rule distinct_map_filter) (simp add: mz)
  have "set xs = set ys"
    by (simp only: sx sy)
  with i s1 d1 s2 d2 have "xs = ys"
    by (rule map_sorted_distinct_set_unique)
  then show ?thesis
    by (simp add: age_distribution_query_def xs_def ys_def zs_def B_def K_def cnt_def F_def)
qed

text \<open>
  C9. An age falls in Under 30 exactly when it is below 30, in 30-49 exactly on [30, 50),
  in 50-64 exactly on [50, 65) and in 65+ exactly from 65 on, so the boundary ages 30, 50
  and 65 go to the higher bucket. In every store state the age distribution lists the
  buckets that occur, with their counts, in the sequence Under 30, 30-49, 50-64, 65+ (the
  rank of the ORDER BY clause), whatever the order of the rows and whatever the
  alphabetical order of the labels.
\<close>

theorem age_distribution_buckets:
  "(age_group (Some a) = ''Under 30'' \<longleftrightarrow> a < 30) \<and>
   (age_group (Some a) = ''30-49'' \<longleftrightarrow> 30 \<le> a \<and> a < 50) \<and>
   (age_group (Some a) = ''50-64'' \<longleftrightarrow> 50 \<le> a \<and> a < 65) \<and>
   (age_group (Some a) = ''65+'' \<longleftrightarrow> 65 \<le> a) \<and>
   age_group (Some 30) = ''30-49'' \<and> age_group (Some 50) = ''50-64'' \<and>
   age_group (Some 65) = ''65+'' \<and>
   age_distribution (get_dashboard_data rows) =
     filter (\<lambda>(g, n). 0 < n)
       (map (\<lambda>g. (g, length (filter (\<lambda>r. age_group (col_age r) = g) rows)))
          [''Under 30'', ''30-49'', ''50-64'', ''65+''])"
proof -
  have "age_distribution (get_dashboard_data rows) = age_distribution_query rows"
    by (simp add: get_dashboard_data_def)
  then show ?thesis
    by (simp add: age_distribution_query_eq)
       (simp add: age_group_def sql_true_def sql_lt_def)
qed

text \<open>
  On the example store, whose first row falls in 30-49, the answer starts with Under 30;
  sorted as strings the labels would read 30-49, 65+, Under 30.
\<close>

lemma age_distribution_example:
  "age_distribution (get_dashboard_data example_store) =
     [(''Under 30'', 1), (''30-49'', 2), (''65+'', 1)]"
  by (simp add: get_dashboard_data_def age_distribution_query_def group_count_def
      example_store_def example_males_def example_other_def example_row_def
      age_group_def age_group_order_def sql_true_def sql_lt_def)

text \<open>A row whose age is NULL has no age value; the CASE sends it to its ELSE branch.\<close>

lemma age_group_null: "age_group None = ''65+''"
  by (simp add: age_group_def sql_true_def sql_lt_def)





end
